theory Spec2Isabelle
  imports Main
begin

section \<open>The thermal dashboard controller (static/js/main.js)\<close>

text \<open>
  The script keeps two module-level counters, \<open>currentDatasetIndex\<close> and
  \<open>totalDatasets\<close>, writes to a handful of DOM nodes and hands chart descriptors to
  the plotting library. Its two asynchronous functions suspend only while a fetch is
  outstanding; everything between two suspensions runs to completion. The model
  therefore splits each asynchronous function in two: the part that issues the request
  and the part that resumes when the request is settled. Requests that have been issued
  and not yet settled are kept in the state, so that responses may arrive in any order.
\<close>

subsection \<open>Payloads of the data API\<close>

text \<open>
  Temperatures are JavaScript numbers whose values the script never inspects; they are a
  type parameter \<open>'v\<close>, and so are the timestamps (\<open>'t\<close>). A parsed body is
  taken to have the shape the API documents (an array of summary points, a detail
  record).
\<close>

record ('t, 'v) summary_point =
  timestamp :: 't
  max_temp :: 'v
  min_temp :: 'v

record 'v detail_stats =
  min_stats :: 'v
  max_stats :: 'v
  avg_stats :: 'v

record 'v detail_matrices =
  temperature :: "'v list list"
  gradient_magnitude :: "'v list list"
  hot_roi :: "'v list list"

record 'v detail_record =
  filename :: string
  stats :: "'v detail_stats"
  matrices :: "'v detail_matrices"

text \<open>
  How a fetch is settled, in the order the script looks at it: \<open>fetch\<close> itself
  rejects (network error), or it yields a response with its \<open>ok\<close> flag, whose
  \<open>json()\<close> either rejects (\<open>None\<close>) or yields the parsed body.
\<close>

datatype 'a fetch_outcome = Rejected | Response bool "'a option"

datatype js_error = FetchRejected | JsonRejected | JsError string

fun fetch_failed :: "'a fetch_outcome \<Rightarrow> bool" where
  "fetch_failed Rejected = True"
| "fetch_failed (Response ok body) = (\<not> ok \<or> body = None)"

subsection \<open>The page state\<close>

text \<open>
  A chart is represented by the data it shows; colours, fonts, titles and margins are
  presentation constants and are left out.
\<close>

datatype ('t, 'v) trace =
    Scatter "'t list" "'v list"
  | Surface "'v list list" 'v 'v
  | Heatmap "'v list list" "('v \<times> 'v) option"
  | Histogram "'v list"

datatype origin = FromInitialize | FromTimer

datatype request = SummaryFetch origin | DetailFetch int

record ('t, 'v) page =
  currentDatasetIndex :: int
  totalDatasets :: int
  counterEl :: string
  btnPrev_disabled :: bool
  btnNext_disabled :: bool
  filenameEl :: string
  stats_min :: string
  stats_max :: string
  stats_avg :: string
  plots :: "string \<rightharpoonup> ('t, 'v) trace list"
  console :: "(string \<times> js_error) list"
  inflight :: "request list"

subsection \<open>Numbers in template literals\<close>

fun digits :: "nat \<Rightarrow> string" where
  "digits n = (if n < 10 then [''0123456789'' ! n]
               else digits (n div 10) @ [''0123456789'' ! (n mod 10)])"

declare digits.simps [simp del]

definition num_to_string :: "int \<Rightarrow> string" where
  "num_to_string i = (if i < 0 then ''-'' @ digits (nat (- i)) else digits (nat i))"

subsection \<open>Library calls\<close>

definition console_error :: "string \<Rightarrow> js_error \<Rightarrow> ('t, 'v) page \<Rightarrow> ('t, 'v) page" where
  "console_error tag e p = p\<lparr>console := console p @ [(tag, e)]\<rparr>"

definition Plotly_draw ::
  "string \<Rightarrow> ('t, 'v) trace list \<Rightarrow> ('t, 'v) page \<Rightarrow> ('t, 'v) page" where
  "Plotly_draw el data p = p\<lparr>plots := (plots p)(el \<mapsto> data)\<rparr>"

subsection \<open>updateControls\<close>

definition updateControls :: "('t, 'v) page \<Rightarrow> ('t, 'v) page" where
  "updateControls p =
     p\<lparr>counterEl :=
         (if totalDatasets p > 0
          then num_to_string (currentDatasetIndex p + 1) @ '' / '' @
               num_to_string (totalDatasets p)
          else ''0 / 0''),
       btnPrev_disabled := (currentDatasetIndex p \<le> 0),
       btnNext_disabled := (currentDatasetIndex p \<ge> totalDatasets p - 1)\<rparr>"

subsection \<open>updateTemporalPlot\<close>

definition updateTemporalPlot_start :: "origin \<Rightarrow> ('t, 'v) page \<Rightarrow> ('t, 'v) page" where
  "updateTemporalPlot_start caller p = p\<lparr>inflight := inflight p @ [SummaryFetch caller]\<rparr>"

text \<open>
  The \<open>try\<close> block from the point where the fetch is settled. \<open>Inl\<close> is a throw,
  with the state at the throw; \<open>Inr\<close> is normal completion (including the early
  \<open>return\<close> on an empty list).
\<close>

definition updateTemporalPlot_try ::
  "('t, 'v) summary_point list fetch_outcome \<Rightarrow> ('t, 'v) page \<Rightarrow>
     (js_error \<times> ('t, 'v) page) + ('t, 'v) page" where
  "updateTemporalPlot_try r p =
     (case r of
        Rejected \<Rightarrow> Inl (FetchRejected, p)
      | Response ok body \<Rightarrow>
          if \<not> ok then Inl (JsError ''Error al cargar datos de resumen'', p)
          else (case body of
                  None \<Rightarrow> Inl (JsonRejected, p)
                | Some summaryData \<Rightarrow>
                    let p1 = p\<lparr>totalDatasets := int (length summaryData)\<rparr> in
                    if totalDatasets p1 = 0 then Inr p1
                    else
                      let timestamps = map timestamp summaryData;
                          maxTemps = map max_temp summaryData;
                          minTemps = map min_temp summaryData;
                          traceMax = Scatter timestamps maxTemps;
                          traceMin = Scatter timestamps minTemps;
                          p2 = Plotly_draw ''temporal-plot'' [traceMax, traceMin] p1
                      in Inr (updateControls p2)))"

definition updateTemporalPlot_resume ::
  "('t, 'v) summary_point list fetch_outcome \<Rightarrow> ('t, 'v) page \<Rightarrow> ('t, 'v) page" where
  "updateTemporalPlot_resume r p =
     (case updateTemporalPlot_try r p of
        Inl (error, p') \<Rightarrow> console_error ''Error en updateTemporalPlot:'' error p'
      | Inr p' \<Rightarrow> p')"

subsection \<open>updateDetailPlots\<close>

definition updateDetailPlots_start :: "int \<Rightarrow> ('t, 'v) page \<Rightarrow> ('t, 'v) page" where
  "updateDetailPlots_start index p = p\<lparr>inflight := inflight p @ [DetailFetch index]\<rparr>"

text \<open>
  \<open>toFixed\<close> stands for \<open>Number.prototype.toFixed(2)\<close>, a built-in of the
  language; the degree sign of the stat labels is the code unit \<open>0xB0\<close>.
\<close>

definition celsius :: "('v \<Rightarrow> string) \<Rightarrow> 'v \<Rightarrow> string" where
  "celsius toFixed x = toFixed x @ '' '' @ [CHR 0xB0] @ ''C''"

definition updateDetailPlots_try ::
  "('v \<Rightarrow> string) \<Rightarrow> int \<Rightarrow> 'v detail_record fetch_outcome \<Rightarrow> ('t, 'v) page \<Rightarrow>
     (js_error \<times> ('t, 'v) page) + ('t, 'v) page" where
  "updateDetailPlots_try toFixed index r p =
     (case r of
        Rejected \<Rightarrow> Inl (FetchRejected, p)
      | Response ok body \<Rightarrow>
          if \<not> ok
          then Inl (JsError (''Dataset '' @ num_to_string index @ '' no encontrado''), p)
          else (case body of
                  None \<Rightarrow> Inl (JsonRejected, p)
                | Some detailData \<Rightarrow>
                    let p1 = p\<lparr>filenameEl := filename detailData,
                               stats_min := celsius toFixed (min_stats (stats detailData)),
                               stats_max := celsius toFixed (max_stats (stats detailData)),
                               stats_avg := celsius toFixed (avg_stats (stats detailData))\<rparr>;
                        tempMatrix = temperature (matrices detailData);
                        cmin = min_stats (stats detailData);
                        cmax = max_stats (stats detailData);
                        p2 = Plotly_draw ''plot-3d'' [Surface tempMatrix cmin cmax] p1;
                        p3 = Plotly_draw ''plot-2d''
                               [Heatmap tempMatrix (Some (cmin, cmax))] p2;
                        flatTemps = concat tempMatrix;
                        p4 = Plotly_draw ''histogram-plot'' [Histogram flatTemps] p3;
                        p5 = Plotly_draw ''gradient-plot''
                               [Heatmap (gradient_magnitude (matrices detailData)) None] p4;
                        p6 = Plotly_draw ''roi-plot''
                               [Heatmap (hot_roi (matrices detailData)) None] p5
                    in Inr p6))"

definition updateDetailPlots_resume ::
  "('v \<Rightarrow> string) \<Rightarrow> int \<Rightarrow> 'v detail_record fetch_outcome \<Rightarrow> ('t, 'v) page \<Rightarrow>
     ('t, 'v) page" where
  "updateDetailPlots_resume toFixed index r p =
     (case updateDetailPlots_try toFixed index r p of
        Inl (error, p') \<Rightarrow> console_error ''Error en updateDetailPlots:'' error p'
      | Inr p' \<Rightarrow> p')"

subsection \<open>The click handlers\<close>

definition btnPrev_click :: "('t, 'v) page \<Rightarrow> ('t, 'v) page" where
  "btnPrev_click p =
     (if currentDatasetIndex p > 0
      then let p1 = p\<lparr>currentDatasetIndex := currentDatasetIndex p - 1\<rparr>;
               p2 = updateControls p1
           in updateDetailPlots_start (currentDatasetIndex p2) p2
      else p)"

definition btnNext_click :: "('t, 'v) page \<Rightarrow> ('t, 'v) page" where
  "btnNext_click p =
     (if currentDatasetIndex p < totalDatasets p - 1
      then let p1 = p\<lparr>currentDatasetIndex := currentDatasetIndex p + 1\<rparr>;
               p2 = updateControls p1
           in updateDetailPlots_start (currentDatasetIndex p2) p2
      else p)"

subsection \<open>Start-up and the event loop\<close>

text \<open>
  \<open>initialize\<close> issues the summary request and suspends; when
  \<open>updateTemporalPlot\<close> has completed it loads the first detail record, if there
  is one, and recomputes the controls.
\<close>

definition initialize_start :: "('t, 'v) page \<Rightarrow> ('t, 'v) page" where
  "initialize_start p = updateTemporalPlot_start FromInitialize p"

definition initialize_resume :: "('t, 'v) page \<Rightarrow> ('t, 'v) page" where
  "initialize_resume p =
     updateControls
       (if totalDatasets p > 0 then updateDetailPlots_start (currentDatasetIndex p) p
        else p)"

text \<open>
  The handler of \<open>DOMContentLoaded\<close>. The document itself is not part of the
  script: \<open>html\<close> supplies the DOM as the markup left it, and the handler sets the
  two counters and calls \<open>initialize\<close>.
\<close>

definition page_load :: "('t, 'v) page \<Rightarrow> ('t, 'v) page" where
  "page_load html =
     initialize_start (html\<lparr>currentDatasetIndex := 0, totalDatasets := 0, inflight := []\<rparr>)"

definition remove_nth :: "nat \<Rightarrow> 'a list \<Rightarrow> 'a list" where
  "remove_nth k xs = take k xs @ drop (Suc k) xs"

text \<open>
  What the event loop can deliver after the page has loaded: a click on either button, a
  tick of the 30-second timer, and the settling of the \<open>k\<close>-th outstanding request.
  A response for a request that is not outstanding, or of the other kind, cannot occur
  (\<open>None\<close>).
\<close>

datatype ('t, 'v) event =
    ClickPrev
  | ClickNext
  | Tick
  | SummaryArrives nat "('t, 'v) summary_point list fetch_outcome"
  | DetailArrives nat "'v detail_record fetch_outcome"

fun step :: "('v \<Rightarrow> string) \<Rightarrow> ('t, 'v) event \<Rightarrow> ('t, 'v) page \<Rightarrow> ('t, 'v) page option" where
  "step toFixed ClickPrev p = Some (btnPrev_click p)"
| "step toFixed ClickNext p = Some (btnNext_click p)"
| "step toFixed Tick p = Some (updateTemporalPlot_start FromTimer p)"
| "step toFixed (SummaryArrives k r) p =
     (if k < length (inflight p)
      then (case inflight p ! k of
              SummaryFetch caller \<Rightarrow>
                let p1 = updateTemporalPlot_resume r
                           (p\<lparr>inflight := remove_nth k (inflight p)\<rparr>)
                in Some (case caller of FromInitialize \<Rightarrow> initialize_resume p1
                                    | FromTimer \<Rightarrow> p1)
            | DetailFetch index \<Rightarrow> None)
      else None)"
| "step toFixed (DetailArrives k r) p =
     (if k < length (inflight p)
      then (case inflight p ! k of
              SummaryFetch caller \<Rightarrow> None
            | DetailFetch index \<Rightarrow>
                Some (updateDetailPlots_resume toFixed index r
                        (p\<lparr>inflight := remove_nth k (inflight p)\<rparr>)))
      else None)"

fun run :: "('v \<Rightarrow> string) \<Rightarrow> ('t, 'v) event list \<Rightarrow> ('t, 'v) page \<Rightarrow> ('t, 'v) page option" where
  "run toFixed [] p = Some p"
| "run toFixed (e # es) p =
     (case step toFixed e p of None \<Rightarrow> None | Some p' \<Rightarrow> run toFixed es p')"

subsection \<open>The navigator invariant and the contract it is compared with\<close>

text \<open>
  The invariant the specification states for the pair of counters: a valid selection
  whenever there are datasets, index zero when there are none.
\<close>

definition nav_inv :: "('t, 'v) page \<Rightarrow> bool" where
  "nav_inv p =
     ((totalDatasets p > 0 \<longrightarrow>
         0 \<le> currentDatasetIndex p \<and> currentDatasetIndex p < totalDatasets p) \<and>
      (totalDatasets p = 0 \<longrightarrow> currentDatasetIndex p = 0))"

text \<open>
  A run in which no event shrinks the total to or below the index: after every event
  the total has not decreased, or the index is still below it. The script has no such
  check of its own; the predicate describes the responses of the data API.
\<close>

fun index_kept_in_range ::
  "('v \<Rightarrow> string) \<Rightarrow> ('t, 'v) event list \<Rightarrow> ('t, 'v) page \<Rightarrow> bool" where
  "index_kept_in_range toFixed [] p = True"
| "index_kept_in_range toFixed (e # es) p =
     (case step toFixed e p of
        None \<Rightarrow> False
      | Some p' \<Rightarrow>
          (totalDatasets p \<le> totalDatasets p' \<or> currentDatasetIndex p' < totalDatasets p') \<and>
          index_kept_in_range toFixed es p')"

text \<open>
  The operation \<open>setTotal\<close> as the specification words it, on the pair
  (index, total): the total is overwritten and an index that is out of range is clamped
  to \<open>max (n - 1) 0\<close>. The script has no function of this name; the definition is
  only compared with what the summary refresh does.
\<close>

definition spec_setTotal :: "int \<Rightarrow> int \<times> int \<Rightarrow> int \<times> int" where
  "spec_setTotal n s = (if fst s \<ge> n then max (n - 1) 0 else fst s, n)"

subsection \<open>Concrete pages, payloads and runs\<close>

definition blank_page :: "(nat, int) page" where
  "blank_page =
     \<lparr>currentDatasetIndex = 0, totalDatasets = 0, counterEl = '''',
      btnPrev_disabled = False, btnNext_disabled = False, filenameEl = '''',
      stats_min = '''', stats_max = '''', stats_avg = '''', plots = Map.empty,
      console = [], inflight = []\<rparr>"

definition toFixed_int :: "int \<Rightarrow> string" where
  "toFixed_int v = num_to_string v @ ''.00''"

definition sample_point :: "nat \<Rightarrow> (nat, int) summary_point" where
  "sample_point k = \<lparr>timestamp = k, max_temp = 30 + int k, min_temp = 20 + int k\<rparr>"

definition sample_detail :: "string \<Rightarrow> int detail_record" where
  "sample_detail name =
     \<lparr>filename = name,
      stats = \<lparr>min_stats = 1, max_stats = 4, avg_stats = 2\<rparr>,
      matrices = \<lparr>temperature = [[1, 2], [3, 4]],
                  gradient_magnitude = [[1, 1], [1, 1]],
                  hot_roi = [[0, 0], [0, 1]]\<rparr>\<rparr>"

definition summary_of :: "nat list \<Rightarrow> (nat, int) summary_point list fetch_outcome" where
  "summary_of ks = Response True (Some (map sample_point ks))"

definition detail_of :: "string \<Rightarrow> int detail_record fetch_outcome" where
  "detail_of name = Response True (Some (sample_detail name))"

text \<open>
  Five datasets at start-up, four clicks on next, then a timer refresh that finds only
  three datasets.
\<close>

definition shrink_prefix :: "(nat, int) event list" where
  "shrink_prefix =
     [SummaryArrives 0 (summary_of [0, 1, 2, 3, 4]),
      ClickNext, ClickNext, ClickNext, ClickNext, Tick]"

definition shrink_trace :: "(nat, int) event list" where
  "shrink_trace = shrink_prefix @ [SummaryArrives 5 (summary_of [0, 1, 2])]"

text \<open>
  Five datasets at start-up; the user moves on to index 2 and then to index 3 before
  the detail record of index 2 has arrived; the record of index 3 arrives first.
\<close>

definition stale_prefix :: "(nat, int) event list" where
  "stale_prefix =
     [SummaryArrives 0 (summary_of [0, 1, 2, 3, 4]),
      DetailArrives 0 (detail_of ''f0''),
      ClickNext,
      DetailArrives 0 (detail_of ''f1''),
      ClickNext, ClickNext,
      DetailArrives 1 (detail_of ''f3'')]"

definition stale_trace :: "(nat, int) event list" where
  "stale_trace = stale_prefix @ [DetailArrives 0 (detail_of ''f2'')]"

text \<open>Three datasets at start-up, then a timer refresh that finds none.\<close>

definition empty_refresh_trace :: "(nat, int) event list" where
  "empty_refresh_trace =
     [SummaryArrives 0 (summary_of [0, 1, 2]), Tick, SummaryArrives 1 (Response True (Some []))]"

text \<open>Datasets are only appended while the user pages back and forth.\<close>

definition growing_trace :: "(nat, int) event list" where
  "growing_trace =
     [SummaryArrives 0 (summary_of [0, 1, 2]), ClickNext, ClickNext, ClickNext,
      ClickPrev, Tick, SummaryArrives 4 (summary_of [0, 1, 2, 3]), ClickNext, ClickNext]"

text \<open>
  The start-up response is overtaken: a timer refresh finds three datasets and the user
  moves to index 1 before the request issued at start-up is answered, with an empty list.
\<close>

definition late_startup_prefix :: "(nat, int) event list" where
  "late_startup_prefix = [Tick, SummaryArrives 1 (summary_of [0, 1, 2]), ClickNext]"

definition late_startup_trace :: "(nat, int) event list" where
  "late_startup_trace = late_startup_prefix @ [SummaryArrives 0 (Response True (Some []))]"

section \<open>Properties\<close>

subsection \<open>What each operation does to the two counters\<close>

lemma updateControls_keeps [simp]:
  "currentDatasetIndex (updateControls p) = currentDatasetIndex p"
  "totalDatasets (updateControls p) = totalDatasets p"
  "inflight (updateControls p) = inflight p"
  "console (updateControls p) = console p"
  "plots (updateControls p) = plots p"
  "filenameEl (updateControls p) = filenameEl p"
  by (simp_all add: updateControls_def)

lemma updateDetailPlots_start_keeps [simp]:
  "currentDatasetIndex (updateDetailPlots_start i p) = currentDatasetIndex p"
  "totalDatasets (updateDetailPlots_start i p) = totalDatasets p"
  by (simp_all add: updateDetailPlots_start_def)

lemma updateTemporalPlot_start_keeps [simp]:
  "currentDatasetIndex (updateTemporalPlot_start c p) = currentDatasetIndex p"
  "totalDatasets (updateTemporalPlot_start c p) = totalDatasets p"
  by (simp_all add: updateTemporalPlot_start_def)

lemma initialize_resume_keeps [simp]:
  "currentDatasetIndex (initialize_resume p) = currentDatasetIndex p"
  "totalDatasets (initialize_resume p) = totalDatasets p"
  by (simp_all add: initialize_resume_def)

lemma updateDetailPlots_resume_keeps [simp]:
  "currentDatasetIndex (updateDetailPlots_resume toFixed i r p) = currentDatasetIndex p"
  "totalDatasets (updateDetailPlots_resume toFixed i r p) = totalDatasets p"
  by (simp_all add: updateDetailPlots_resume_def updateDetailPlots_try_def
      console_error_def Plotly_draw_def Let_def split: fetch_outcome.splits option.splits)

lemma updateTemporalPlot_resume_index [simp]:
  "currentDatasetIndex (updateTemporalPlot_resume r p) = currentDatasetIndex p"
  by (simp add: updateTemporalPlot_resume_def updateTemporalPlot_try_def
      console_error_def Plotly_draw_def Let_def split: fetch_outcome.splits option.splits)

lemma updateTemporalPlot_resume_total:
  "totalDatasets (updateTemporalPlot_resume r p) =
     (case r of Response True (Some summaryData) \<Rightarrow> int (length summaryData)
              | _ \<Rightarrow> totalDatasets p)"
  by (simp add: updateTemporalPlot_resume_def updateTemporalPlot_try_def
      console_error_def Plotly_draw_def Let_def
      split: fetch_outcome.splits option.splits bool.splits)

lemma btnPrev_click_nav [simp]:
  "currentDatasetIndex (btnPrev_click p) =
     (if currentDatasetIndex p > 0 then currentDatasetIndex p - 1 else currentDatasetIndex p)"
  "totalDatasets (btnPrev_click p) = totalDatasets p"
  by (simp_all add: btnPrev_click_def Let_def)

lemma btnNext_click_nav [simp]:
  "currentDatasetIndex (btnNext_click p) =
     (if currentDatasetIndex p < totalDatasets p - 1 then currentDatasetIndex p + 1
      else currentDatasetIndex p)"
  "totalDatasets (btnNext_click p) = totalDatasets p"
  by (simp_all add: btnNext_click_def Let_def)

lemma page_load_nav [simp]:
  "currentDatasetIndex (page_load html) = 0"
  "totalDatasets (page_load html) = 0"
  by (simp_all add: page_load_def initialize_start_def)

text \<open>What one event of the loop does to the two counters.\<close>

lemma step_index:
  assumes "step toFixed e p = Some p'"
  shows "currentDatasetIndex p' =
           (case e of ClickPrev \<Rightarrow> currentDatasetIndex (btnPrev_click p)
                    | ClickNext \<Rightarrow> currentDatasetIndex (btnNext_click p)
                    | _ \<Rightarrow> currentDatasetIndex p)"
  using assms
  by (cases e) (auto simp: Let_def split: if_splits request.splits origin.splits)

lemma step_total:
  assumes "step toFixed e p = Some p'"
  shows "totalDatasets p' =
           (case e of SummaryArrives k (Response True (Some summaryData)) \<Rightarrow>
                        int (length summaryData)
                    | _ \<Rightarrow> totalDatasets p)"
  using assms
  by (cases e)
     (auto simp: Let_def updateTemporalPlot_resume_total
           split: if_splits request.splits origin.splits fetch_outcome.splits
                  option.splits bool.splits)

lemma step_index_nonneg:
  assumes "step toFixed e p = Some p'" and "0 \<le> currentDatasetIndex p"
  shows "0 \<le> currentDatasetIndex p'"
  using step_index [OF assms(1)] assms(2)
  by (cases e) (auto split: if_splits)

lemma run_index_nonneg:
  "run toFixed es p = Some s \<Longrightarrow> 0 \<le> currentDatasetIndex p \<Longrightarrow> 0 \<le> currentDatasetIndex s"
proof (induction es arbitrary: p)
  case Nil
  then show ?case by simp
next
  case (Cons e es)
  then show ?case
    by (auto split: option.splits dest: step_index_nonneg)
qed

lemma step_total_nonneg:
  assumes "step toFixed e p = Some p'" and "0 \<le> totalDatasets p"
  shows "0 \<le> totalDatasets p'"
  using step_total [OF assms(1)] assms(2)
  by (auto split: event.splits fetch_outcome.splits option.splits bool.splits)

lemma step_nav_inv:
  assumes "step toFixed e p = Some p'" and "nav_inv p" and "0 \<le> totalDatasets p"
    and "totalDatasets p \<le> totalDatasets p' \<or> currentDatasetIndex p' < totalDatasets p'"
  shows "nav_inv p'"
proof -
  have nonneg: "0 \<le> totalDatasets p'"
    using step_total_nonneg [OF assms(1,3)] .
  show ?thesis
  proof (cases e)
    case (SummaryArrives k r)
    then have "currentDatasetIndex p' = currentDatasetIndex p"
      using step_index [OF assms(1)] by simp
    then show ?thesis
      using assms(2,3,4) nonneg by (auto simp: nav_inv_def)
  next
    case ClickPrev
    then show ?thesis
      using step_index [OF assms(1)] step_total [OF assms(1)] assms(2)
      by (auto simp: nav_inv_def split: if_splits)
  next
    case ClickNext
    then show ?thesis
      using step_index [OF assms(1)] step_total [OF assms(1)] assms(2)
      by (auto simp: nav_inv_def split: if_splits)
  next
    case Tick
    then show ?thesis
      using step_index [OF assms(1)] step_total [OF assms(1)] assms(2)
      by (auto simp: nav_inv_def)
  next
    case (DetailArrives k r)
    then show ?thesis
      using step_index [OF assms(1)] step_total [OF assms(1)] assms(2)
      by (auto simp: nav_inv_def)
  qed
qed

lemma run_nav_inv:
  "index_kept_in_range toFixed es p \<Longrightarrow> nav_inv p \<Longrightarrow> 0 \<le> totalDatasets p \<Longrightarrow>
     \<exists>s. run toFixed es p = Some s \<and> nav_inv s"
proof (induction es arbitrary: p)
  case Nil
  then show ?case by simp
next
  case (Cons e es)
  from Cons.prems(1) obtain p' where
    st: "step toFixed e p = Some p'" and
    rng: "totalDatasets p \<le> totalDatasets p' \<or> currentDatasetIndex p' < totalDatasets p'" and
    rest: "index_kept_in_range toFixed es p'"
    by (auto split: option.splits)
  have "nav_inv p'"
    using step_nav_inv [OF st Cons.prems(2,3) rng] .
  moreover have "0 \<le> totalDatasets p'"
    using step_total_nonneg [OF st Cons.prems(3)] .
  ultimately show ?case
    using Cons.IH [OF rest] st by simp
qed

lemma run_append:
  "run toFixed (es @ fs) p =
     (case run toFixed es p of None \<Rightarrow> None | Some p' \<Rightarrow> run toFixed fs p')"
  by (induction es arbitrary: p) (auto split: option.splits)

subsection \<open>The navigator invariant\<close>

text \<open>
  C1 (as amended). The invariant of the pair (currentDatasetIndex, totalDatasets), a
  valid selection whenever the total is positive and index zero when the total is zero,
  holds in the state left by the page load and in every state reached from it by clicks
  on next and previous, timer ticks, detail responses and summary responses of any
  outcome, as long as no summary refresh shrinks the total to or below the index. The
  refresh writes the total and never touches the index, so nothing restores the
  invariant once a refresh has shrunk the total that far.
\<close>

theorem navigator_invariant_reachable:
  "index_kept_in_range toFixed es (page_load html) \<Longrightarrow>
     \<exists>s. run toFixed es (page_load html) = Some s \<and> nav_inv s"
  using run_nav_inv [of toFixed es "page_load html"] by (simp add: nav_inv_def)

text \<open>
  A run with three datasets, paging, and a refresh that finds a fourth: it ends at index
  3 of 4.
\<close>

theorem navigator_invariant_reachable_witness:
  "index_kept_in_range toFixed_int growing_trace (page_load blank_page) \<and>
   (\<exists>s. run toFixed_int growing_trace (page_load blank_page) = Some s \<and> nav_inv s) \<and>
   map_option currentDatasetIndex (run toFixed_int growing_trace (page_load blank_page)) =
     Some 3 \<and>
   map_option totalDatasets (run toFixed_int growing_trace (page_load blank_page)) = Some 4"
proof -
  have kept: "index_kept_in_range toFixed_int growing_trace (page_load blank_page)"
    by code_simp
  have "map_option currentDatasetIndex
          (run toFixed_int growing_trace (page_load blank_page)) = Some 3"
    by code_simp
  moreover have "map_option totalDatasets
          (run toFixed_int growing_trace (page_load blank_page)) = Some 4"
    by code_simp
  ultimately show ?thesis
    using kept navigator_invariant_reachable [OF kept] by simp
qed

text \<open>
  C1 as stated fails: with the index at 4 of 5 the invariant holds, and after a refresh
  that finds three datasets the page is at index 4 of 3.
\<close>

theorem navigator_invariant_broken_by_shrinking_refresh:
  "map_option nav_inv (run toFixed_int shrink_prefix (page_load blank_page)) = Some True \<and>
   map_option nav_inv (run toFixed_int shrink_trace (page_load blank_page)) = Some False"
  by code_simp

subsection \<open>The summary refresh and the total\<close>

text \<open>
  C2 (as amended). For every state and every successful summary response with a list of
  length n, the refresh sets the total to n and leaves the index as it was, also when
  the index is n or more: there is no clamping. A refresh with the total shrunk from 5
  to 3 while the index is 4 leaves the index at 4.
\<close>

theorem refresh_sets_total_keeps_index:
  "totalDatasets (updateTemporalPlot_resume (Response True (Some summaryData)) p) =
     int (length summaryData) \<and>
   currentDatasetIndex (updateTemporalPlot_resume (Response True (Some summaryData)) p) =
     currentDatasetIndex p"
  by (simp add: updateTemporalPlot_resume_total)

theorem refresh_sets_total_keeps_index_witness:
  "totalDatasets (updateTemporalPlot_resume (summary_of [0, 1, 2])
      (blank_page\<lparr>currentDatasetIndex := 4, totalDatasets := 5\<rparr>)) = 3 \<and>
   currentDatasetIndex (updateTemporalPlot_resume (summary_of [0, 1, 2])
      (blank_page\<lparr>currentDatasetIndex := 4, totalDatasets := 5\<rparr>)) = 4"
  using refresh_sets_total_keeps_index
    [of "map sample_point [0, 1, 2]"
        "blank_page\<lparr>currentDatasetIndex := 4, totalDatasets := 5\<rparr>"]
  by (simp add: summary_of_def)

text \<open>
  C2 as stated fails on the scenario it names: the page is at index 4 of 5, the refresh
  finds three datasets, and the page is then at index 4 of 3, where the contract of
  \<open>setTotal\<close> asks for index 2.
\<close>

theorem refresh_does_not_clamp:
  "map_option currentDatasetIndex (run toFixed_int shrink_prefix (page_load blank_page)) =
     Some 4 \<and>
   map_option totalDatasets (run toFixed_int shrink_prefix (page_load blank_page)) =
     Some 5 \<and>
   map_option currentDatasetIndex (run toFixed_int shrink_trace (page_load blank_page)) =
     Some 4 \<and>
   map_option totalDatasets (run toFixed_int shrink_trace (page_load blank_page)) =
     Some 3 \<and>
   spec_setTotal 3 (4, 5) = (2, 3)"
  by code_simp

subsection \<open>The index is never negative\<close>

text \<open>
  C10. In every state reached from the page load by any sequence of events, the index
  is at least zero: it starts at 0, previous decrements it only when it is positive,
  next only increments it, and neither kind of response changes it.
\<close>

theorem index_never_negative:
  "run toFixed es (page_load html) = Some s \<Longrightarrow> 0 \<le> currentDatasetIndex s"
  using run_index_nonneg [of toFixed es "page_load html" s] by simp

theorem index_never_negative_witness:
  "\<exists>s. run toFixed_int shrink_trace (page_load blank_page) = Some s \<and>
       0 \<le> currentDatasetIndex s \<and> currentDatasetIndex s = 4"
proof -
  have "map_option currentDatasetIndex
          (run toFixed_int shrink_trace (page_load blank_page)) = Some 4"
    by code_simp
  then obtain s where s: "run toFixed_int shrink_trace (page_load blank_page) = Some s"
    and "currentDatasetIndex s = 4"
    by auto
  then show ?thesis
    using index_never_negative [OF s] by simp
qed

subsection \<open>Detail responses\<close>

lemma updateDetailPlots_resume_success:
  "updateDetailPlots_resume toFixed index (Response True (Some detailData)) p =
     p\<lparr>filenameEl := filename detailData,
       stats_min := celsius toFixed (min_stats (stats detailData)),
       stats_max := celsius toFixed (max_stats (stats detailData)),
       stats_avg := celsius toFixed (avg_stats (stats detailData)),
       plots := (plots p)
         (''plot-3d'' \<mapsto> [Surface (temperature (matrices detailData))
                              (min_stats (stats detailData)) (max_stats (stats detailData))],
          ''plot-2d'' \<mapsto> [Heatmap (temperature (matrices detailData))
                              (Some (min_stats (stats detailData), max_stats (stats detailData)))],
          ''histogram-plot'' \<mapsto> [Histogram (concat (temperature (matrices detailData)))],
          ''gradient-plot'' \<mapsto> [Heatmap (gradient_magnitude (matrices detailData)) None],
          ''roi-plot'' \<mapsto> [Heatmap (hot_roi (matrices detailData)) None])\<rparr>"
  by (simp add: updateDetailPlots_resume_def updateDetailPlots_try_def Plotly_draw_def Let_def)

text \<open>
  C3 (as amended). A successful detail response is rendered when it arrives, whatever
  the index is at that moment: the continuation of the fetch issued for index i never
  compares i with the current index. The filename label, the three stat labels and the
  five charts then show the record of the response, the index is left as it is, and the
  result does not depend on i at all. A late response for an index the user has left
  does overwrite the view of the index shown.
\<close>

theorem detail_response_rendered_whatever_the_index:
  "filenameEl (updateDetailPlots_resume toFixed i (Response True (Some d)) p) = filename d \<and>
   stats_min (updateDetailPlots_resume toFixed i (Response True (Some d)) p) =
     celsius toFixed (min_stats (stats d)) \<and>
   stats_max (updateDetailPlots_resume toFixed i (Response True (Some d)) p) =
     celsius toFixed (max_stats (stats d)) \<and>
   stats_avg (updateDetailPlots_resume toFixed i (Response True (Some d)) p) =
     celsius toFixed (avg_stats (stats d)) \<and>
   plots (updateDetailPlots_resume toFixed i (Response True (Some d)) p) ''plot-3d'' =
     Some [Surface (temperature (matrices d)) (min_stats (stats d)) (max_stats (stats d))] \<and>
   plots (updateDetailPlots_resume toFixed i (Response True (Some d)) p) ''plot-2d'' =
     Some [Heatmap (temperature (matrices d))
             (Some (min_stats (stats d), max_stats (stats d)))] \<and>
   plots (updateDetailPlots_resume toFixed i (Response True (Some d)) p) ''histogram-plot'' =
     Some [Histogram (concat (temperature (matrices d)))] \<and>
   plots (updateDetailPlots_resume toFixed i (Response True (Some d)) p) ''gradient-plot'' =
     Some [Heatmap (gradient_magnitude (matrices d)) None] \<and>
   plots (updateDetailPlots_resume toFixed i (Response True (Some d)) p) ''roi-plot'' =
     Some [Heatmap (hot_roi (matrices d)) None] \<and>
   currentDatasetIndex (updateDetailPlots_resume toFixed i (Response True (Some d)) p) =
     currentDatasetIndex p \<and>
   updateDetailPlots_resume toFixed i (Response True (Some d)) p =
     updateDetailPlots_resume toFixed j (Response True (Some d)) p"
  by (simp add: updateDetailPlots_resume_success)

theorem detail_response_rendered_whatever_the_index_witness:
  "filenameEl (updateDetailPlots_resume toFixed_int 2 (detail_of ''f2'')
      (blank_page\<lparr>currentDatasetIndex := 3, totalDatasets := 5, filenameEl := ''f3''\<rparr>)) = ''f2'' \<and>
   currentDatasetIndex (updateDetailPlots_resume toFixed_int 2 (detail_of ''f2'')
      (blank_page\<lparr>currentDatasetIndex := 3, totalDatasets := 5, filenameEl := ''f3''\<rparr>)) = 3"
  using detail_response_rendered_whatever_the_index
    [of toFixed_int 2 "sample_detail ''f2''"
        "blank_page\<lparr>currentDatasetIndex := 3, totalDatasets := 5, filenameEl := ''f3''\<rparr>" 2]
  by (simp add: detail_of_def sample_detail_def blank_page_def)

text \<open>
  C3 as stated fails on the scenario of the specification: the fetch for index 2 is
  outstanding, the user moves to index 3 and the record of index 3 is rendered; when
  the record of index 2 arrives, the page is still at index 3 and shows the file of
  index 2.
\<close>

theorem stale_detail_response_overwrites_view:
  "map_option currentDatasetIndex (run toFixed_int stale_prefix (page_load blank_page)) = Some 3 \<and>
   map_option filenameEl (run toFixed_int stale_prefix (page_load blank_page)) = Some ''f3'' \<and>
   map_option inflight (run toFixed_int stale_prefix (page_load blank_page)) = Some [DetailFetch 2] \<and>
   map_option currentDatasetIndex (run toFixed_int stale_trace (page_load blank_page)) = Some 3 \<and>
   map_option filenameEl (run toFixed_int stale_trace (page_load blank_page)) = Some ''f2''"
  by code_simp

subsection \<open>Next and previous\<close>

lemma btnNext_click_noop: "(btnNext_click p = p) = (currentDatasetIndex p \<ge> totalDatasets p - 1)"
proof
  assume "btnNext_click p = p"
  then have "currentDatasetIndex (btnNext_click p) = currentDatasetIndex p" by simp
  then show "currentDatasetIndex p \<ge> totalDatasets p - 1" by (simp split: if_splits)
next
  assume "currentDatasetIndex p \<ge> totalDatasets p - 1"
  then show "btnNext_click p = p" by (simp add: btnNext_click_def)
qed

lemma btnPrev_click_noop: "(btnPrev_click p = p) = (currentDatasetIndex p \<le> 0)"
proof
  assume "btnPrev_click p = p"
  then have "currentDatasetIndex (btnPrev_click p) = currentDatasetIndex p" by simp
  then show "currentDatasetIndex p \<le> 0" by (simp split: if_splits)
next
  assume "currentDatasetIndex p \<le> 0"
  then show "btnPrev_click p = p" by (simp add: btnPrev_click_def)
qed


lemma btnNext_click_moves:
  "currentDatasetIndex p < totalDatasets p - 1 \<Longrightarrow>
     btnNext_click p =
       p\<lparr>currentDatasetIndex := currentDatasetIndex p + 1,
         counterEl := (if totalDatasets p > 0
                       then num_to_string (currentDatasetIndex p + 1 + 1) @ '' / '' @
                            num_to_string (totalDatasets p)
                       else ''0 / 0''),
         btnPrev_disabled := (currentDatasetIndex p + 1 \<le> 0),
         btnNext_disabled := (currentDatasetIndex p + 1 \<ge> totalDatasets p - 1),
         inflight := inflight p @ [DetailFetch (currentDatasetIndex p + 1)]\<rparr>"
  by (simp add: btnNext_click_def updateControls_def updateDetailPlots_start_def Let_def)

lemma btnPrev_click_moves:
  "currentDatasetIndex p > 0 \<Longrightarrow>
     btnPrev_click p =
       p\<lparr>currentDatasetIndex := currentDatasetIndex p - 1,
         counterEl := (if totalDatasets p > 0
                       then num_to_string (currentDatasetIndex p - 1 + 1) @ '' / '' @
                            num_to_string (totalDatasets p)
                       else ''0 / 0''),
         btnPrev_disabled := (currentDatasetIndex p - 1 \<le> 0),
         btnNext_disabled := (currentDatasetIndex p - 1 \<ge> totalDatasets p - 1),
         inflight := inflight p @ [DetailFetch (currentDatasetIndex p - 1)]\<rparr>"
  by (simp add: btnPrev_click_def updateControls_def updateDetailPlots_start_def Let_def)

text \<open>
  C4 (as amended). For every state, next increments the index by one, recomputes the
  controls for the new index and issues a detail fetch for the new index if and only if
  index < total - 1; otherwise it changes nothing at all. The no-op case is exactly
  index >= total - 1; in a state that satisfies the navigator invariant this is exactly
  index = total - 1 or total = 0.
\<close>

theorem btnNext_click_effect:
  "(currentDatasetIndex p < totalDatasets p - 1 \<longrightarrow>
      btnNext_click p =
        p\<lparr>currentDatasetIndex := currentDatasetIndex p + 1,
          counterEl := (if totalDatasets p > 0
                        then num_to_string (currentDatasetIndex p + 1 + 1) @ '' / '' @
                             num_to_string (totalDatasets p)
                        else ''0 / 0''),
          btnPrev_disabled := (currentDatasetIndex p + 1 \<le> 0),
          btnNext_disabled := (currentDatasetIndex p + 1 \<ge> totalDatasets p - 1),
          inflight := inflight p @ [DetailFetch (currentDatasetIndex p + 1)]\<rparr>) \<and>
   (\<not> currentDatasetIndex p < totalDatasets p - 1 \<longrightarrow> btnNext_click p = p) \<and>
   (btnNext_click p = p) = (currentDatasetIndex p \<ge> totalDatasets p - 1) \<and>
   (nav_inv p \<and> 0 \<le> totalDatasets p \<longrightarrow>
      (btnNext_click p = p) =
        (currentDatasetIndex p = totalDatasets p - 1 \<or> totalDatasets p = 0))"
proof -
  have "nav_inv p \<and> 0 \<le> totalDatasets p \<longrightarrow>
      (currentDatasetIndex p \<ge> totalDatasets p - 1) =
        (currentDatasetIndex p = totalDatasets p - 1 \<or> totalDatasets p = 0)"
    by (auto simp: nav_inv_def)
  moreover have "currentDatasetIndex p < totalDatasets p - 1 \<longrightarrow>
      btnNext_click p =
        p\<lparr>currentDatasetIndex := currentDatasetIndex p + 1,
          counterEl := (if totalDatasets p > 0
                        then num_to_string (currentDatasetIndex p + 1 + 1) @ '' / '' @
                             num_to_string (totalDatasets p)
                        else ''0 / 0''),
          btnPrev_disabled := (currentDatasetIndex p + 1 \<le> 0),
          btnNext_disabled := (currentDatasetIndex p + 1 \<ge> totalDatasets p - 1),
          inflight := inflight p @ [DetailFetch (currentDatasetIndex p + 1)]\<rparr>"
    using btnNext_click_moves [of p] by blast
  moreover have "\<not> currentDatasetIndex p < totalDatasets p - 1 \<longrightarrow> btnNext_click p = p"
    by (simp add: btnNext_click_def)
  ultimately show ?thesis
    using btnNext_click_noop [of p] by blast
qed

text \<open>
  The scenario of the specification, index 2 of 5, and the last dataset, index 4 of 5.
\<close>

theorem btnNext_click_effect_witness:
  "btnNext_click (blank_page\<lparr>currentDatasetIndex := 2, totalDatasets := 5\<rparr>) =
     blank_page\<lparr>currentDatasetIndex := 3, totalDatasets := 5, counterEl := ''4 / 5'',
       btnPrev_disabled := False, btnNext_disabled := False, inflight := [DetailFetch 3]\<rparr> \<and>
   btnNext_click (blank_page\<lparr>currentDatasetIndex := 4, totalDatasets := 5\<rparr>) =
     blank_page\<lparr>currentDatasetIndex := 4, totalDatasets := 5\<rparr> \<and>
   nav_inv (blank_page\<lparr>currentDatasetIndex := 4, totalDatasets := 5\<rparr>)"
proof -
  have "num_to_string 4 = ''4''" and "num_to_string 5 = ''5''"
    by code_simp+
  then show ?thesis
    using btnNext_click_effect [of "blank_page\<lparr>currentDatasetIndex := 2, totalDatasets := 5\<rparr>"]
      btnNext_click_effect [of "blank_page\<lparr>currentDatasetIndex := 4, totalDatasets := 5\<rparr>"]
    by (simp add: blank_page_def nav_inv_def)
qed

text \<open>
  C4 as stated fails where the invariant does not hold: at index 4 of 3, the state a
  shrinking refresh leaves, a click on next changes nothing, yet the index is not
  total - 1 and the total is not zero.
\<close>

theorem btnNext_click_noop_out_of_range:
  "map_option currentDatasetIndex (run toFixed_int shrink_trace (page_load blank_page)) =
     Some 4 \<and>
   map_option totalDatasets (run toFixed_int shrink_trace (page_load blank_page)) = Some 3 \<and>
   run toFixed_int (shrink_trace @ [ClickNext]) (page_load blank_page) =
     run toFixed_int shrink_trace (page_load blank_page)"
proof -
  have i: "map_option currentDatasetIndex
             (run toFixed_int shrink_trace (page_load blank_page)) = Some 4"
    by code_simp
  have t: "map_option totalDatasets
             (run toFixed_int shrink_trace (page_load blank_page)) = Some 3"
    by code_simp
  from i t obtain s where s: "run toFixed_int shrink_trace (page_load blank_page) = Some s"
    and "currentDatasetIndex s = 4" and "totalDatasets s = 3"
    by auto
  then have "btnNext_click s = s"
    by (simp add: btnNext_click_noop)
  with s have "run toFixed_int (shrink_trace @ [ClickNext]) (page_load blank_page) =
     run toFixed_int shrink_trace (page_load blank_page)"
    by (simp add: run_append)
  with i t show ?thesis by simp
qed

text \<open>
  C5. For every state, previous decrements the index by one, recomputes the controls
  for the new index and issues a detail fetch for the new index if and only if
  index > 0; otherwise it changes nothing at all. For an index that is not negative, as
  it is in every state of the navigator, the no-op case is exactly index = 0.
\<close>

theorem btnPrev_click_effect:
  "(currentDatasetIndex p > 0 \<longrightarrow>
      btnPrev_click p =
        p\<lparr>currentDatasetIndex := currentDatasetIndex p - 1,
          counterEl := (if totalDatasets p > 0
                        then num_to_string (currentDatasetIndex p - 1 + 1) @ '' / '' @
                             num_to_string (totalDatasets p)
                        else ''0 / 0''),
          btnPrev_disabled := (currentDatasetIndex p - 1 \<le> 0),
          btnNext_disabled := (currentDatasetIndex p - 1 \<ge> totalDatasets p - 1),
          inflight := inflight p @ [DetailFetch (currentDatasetIndex p - 1)]\<rparr>) \<and>
   (\<not> currentDatasetIndex p > 0 \<longrightarrow> btnPrev_click p = p) \<and>
   (0 \<le> currentDatasetIndex p \<longrightarrow> (btnPrev_click p = p) = (currentDatasetIndex p = 0))"
proof -
  have "currentDatasetIndex p > 0 \<longrightarrow>
      btnPrev_click p =
        p\<lparr>currentDatasetIndex := currentDatasetIndex p - 1,
          counterEl := (if totalDatasets p > 0
                        then num_to_string (currentDatasetIndex p - 1 + 1) @ '' / '' @
                             num_to_string (totalDatasets p)
                        else ''0 / 0''),
          btnPrev_disabled := (currentDatasetIndex p - 1 \<le> 0),
          btnNext_disabled := (currentDatasetIndex p - 1 \<ge> totalDatasets p - 1),
          inflight := inflight p @ [DetailFetch (currentDatasetIndex p - 1)]\<rparr>"
    using btnPrev_click_moves [of p] by blast
  moreover have "\<not> currentDatasetIndex p > 0 \<longrightarrow> btnPrev_click p = p"
    by (simp add: btnPrev_click_def)
  moreover have "0 \<le> currentDatasetIndex p \<longrightarrow>
      (btnPrev_click p = p) = (currentDatasetIndex p = 0)"
    using btnPrev_click_noop [of p] by auto
  ultimately show ?thesis by blast
qed

text \<open>
  Index 3 of 5, and the scenario of the specification with a single dataset.
\<close>

theorem btnPrev_click_effect_witness:
  "btnPrev_click (blank_page\<lparr>currentDatasetIndex := 3, totalDatasets := 5\<rparr>) =
     blank_page\<lparr>currentDatasetIndex := 2, totalDatasets := 5, counterEl := ''3 / 5'',
       btnPrev_disabled := False, btnNext_disabled := False, inflight := [DetailFetch 2]\<rparr> \<and>
   btnPrev_click (blank_page\<lparr>currentDatasetIndex := 0, totalDatasets := 1\<rparr>) =
     blank_page\<lparr>currentDatasetIndex := 0, totalDatasets := 1\<rparr>"
proof -
  have "num_to_string 3 = ''3''" and "num_to_string 5 = ''5''"
    by code_simp+
  then show ?thesis
    using btnPrev_click_effect [of "blank_page\<lparr>currentDatasetIndex := 3, totalDatasets := 5\<rparr>"]
      btnPrev_click_effect [of "blank_page\<lparr>currentDatasetIndex := 0, totalDatasets := 1\<rparr>"]
    by (simp add: blank_page_def)
qed

subsection \<open>The controls\<close>

text \<open>
  C6. What updateControls writes is a function of (index, total) alone: the label is
  index + 1 and the total in decimal, separated by a slash between two blanks, when the
  total is positive, and the literal with two zeros when the total is zero; previous is
  enabled exactly when index > 0 and next exactly when index < total - 1. Two pages
  with the same index and total get the same label and the same enablement, and the two
  counters are not changed.
\<close>

theorem updateControls_controlState:
  "(totalDatasets p > 0 \<longrightarrow>
      counterEl (updateControls p) =
        num_to_string (currentDatasetIndex p + 1) @ '' / '' @ num_to_string (totalDatasets p)) \<and>
   (totalDatasets p = 0 \<longrightarrow> counterEl (updateControls p) = ''0 / 0'') \<and>
   (\<not> btnPrev_disabled (updateControls p)) = (currentDatasetIndex p > 0) \<and>
   (\<not> btnNext_disabled (updateControls p)) = (currentDatasetIndex p < totalDatasets p - 1) \<and>
   (currentDatasetIndex p = currentDatasetIndex q \<and> totalDatasets p = totalDatasets q \<longrightarrow>
      counterEl (updateControls p) = counterEl (updateControls q) \<and>
      btnPrev_disabled (updateControls p) = btnPrev_disabled (updateControls q) \<and>
      btnNext_disabled (updateControls p) = btnNext_disabled (updateControls q)) \<and>
   currentDatasetIndex (updateControls p) = currentDatasetIndex p \<and>
   totalDatasets (updateControls p) = totalDatasets p"
  by (auto simp: updateControls_def)

theorem updateControls_controlState_witness:
  "counterEl (updateControls (blank_page\<lparr>currentDatasetIndex := 3, totalDatasets := 5\<rparr>)) =
     ''4 / 5'' \<and>
   \<not> btnPrev_disabled
       (updateControls (blank_page\<lparr>currentDatasetIndex := 3, totalDatasets := 5\<rparr>)) \<and>
   \<not> btnNext_disabled
       (updateControls (blank_page\<lparr>currentDatasetIndex := 3, totalDatasets := 5\<rparr>)) \<and>
   counterEl (updateControls
     (blank_page\<lparr>currentDatasetIndex := 3, totalDatasets := 5, filenameEl := ''f''\<rparr>)) =
     ''4 / 5'' \<and>
   counterEl (updateControls blank_page) = ''0 / 0'' \<and>
   btnPrev_disabled (updateControls blank_page) \<and>
   btnNext_disabled (updateControls blank_page)"
proof -
  let ?p = "blank_page\<lparr>currentDatasetIndex := 3, totalDatasets := 5\<rparr>"
  let ?q = "blank_page\<lparr>currentDatasetIndex := 3, totalDatasets := 5, filenameEl := ''f''\<rparr>"
  have ds: "num_to_string 4 = ''4''" "num_to_string 5 = ''5''"
    by code_simp+
  have p: "currentDatasetIndex ?p = 3" "totalDatasets ?p = 5"
    and q: "currentDatasetIndex ?q = 3" "totalDatasets ?q = 5"
    and b: "currentDatasetIndex blank_page = 0" "totalDatasets blank_page = 0"
    by (simp_all add: blank_page_def)
  note shown = updateControls_controlState [of ?p ?q]
  note blank = updateControls_controlState [of blank_page blank_page]
  have "counterEl (updateControls ?p) = ''4 / 5''"
    using shown p ds by simp
  moreover have "currentDatasetIndex ?p = currentDatasetIndex ?q \<and>
      totalDatasets ?p = totalDatasets ?q"
    using p q by simp
  with shown have "counterEl (updateControls ?p) = counterEl (updateControls ?q)"
    by blast
  moreover have "\<not> btnPrev_disabled (updateControls ?p)"
    and "\<not> btnNext_disabled (updateControls ?p)"
    using shown p by simp_all
  moreover have "counterEl (updateControls blank_page) = ''0 / 0''"
    and "btnPrev_disabled (updateControls blank_page)"
    and "btnNext_disabled (updateControls blank_page)"
    using blank b by simp_all
  ultimately show ?thesis by simp
qed

subsection \<open>Failed fetches\<close>

text \<open>
  C7. When the summary fetch fails (the fetch rejects, the status is not a success, or
  the body does not parse), the throw happens before anything is written: the index and
  the total are unchanged, no chart is drawn, no request is issued, and the only effect
  is one entry appended to the console. The error does not leave updateTemporalPlot: for
  a fetch issued by the timer the event completes normally, with the settled request
  removed and nothing retried; for the fetch issued at start-up the event completes
  normally too, with the counters and the charts as they were.
\<close>

theorem summary_failure_leaves_state:
  fixes p :: "('t, 'v) page"
  assumes "fetch_failed r"
  shows "\<exists>error.
           updateTemporalPlot_try r p = Inl (error, p) \<and>
           updateTemporalPlot_resume r p =
             p\<lparr>console := console p @ [(''Error en updateTemporalPlot:'', error)]\<rparr> \<and>
           currentDatasetIndex (updateTemporalPlot_resume r p) = currentDatasetIndex p \<and>
           totalDatasets (updateTemporalPlot_resume r p) = totalDatasets p \<and>
           plots (updateTemporalPlot_resume r p) = plots p \<and>
           inflight (updateTemporalPlot_resume r p) = inflight p \<and>
           (k < length (inflight p) \<and> inflight p ! k = SummaryFetch FromTimer \<longrightarrow>
              step toFixed (SummaryArrives k r) p =
                Some (p\<lparr>inflight := remove_nth k (inflight p),
                        console := console p @ [(''Error en updateTemporalPlot:'', error)]\<rparr>)) \<and>
           (k < length (inflight p) \<and> inflight p ! k = SummaryFetch FromInitialize \<longrightarrow>
              (\<exists>s. step toFixed (SummaryArrives k r) p = Some s \<and>
                   currentDatasetIndex s = currentDatasetIndex p \<and>
                   totalDatasets s = totalDatasets p \<and>
                   plots s = plots p \<and>
                   console s = console p @ [(''Error en updateTemporalPlot:'', error)]))"
proof -
  define error where
    "error = (case r of Rejected \<Rightarrow> FetchRejected
              | Response ok body \<Rightarrow>
                  if ok then JsonRejected else JsError ''Error al cargar datos de resumen'')"
  have thrown: "updateTemporalPlot_try r p = Inl (error, p)" for p :: "('t, 'v) page"
    using assms
    by (cases r) (auto simp: updateTemporalPlot_try_def error_def split: option.splits)
  have caught: "updateTemporalPlot_resume r p =
      p\<lparr>console := console p @ [(''Error en updateTemporalPlot:'', error)]\<rparr>"
    for p :: "('t, 'v) page"
    by (simp add: updateTemporalPlot_resume_def thrown console_error_def)
  show ?thesis
    by (rule exI [of _ error])
       (simp add: thrown caught Let_def initialize_resume_def updateDetailPlots_start_def)
qed

text \<open>
  The three kinds of failure at index 1 of 3.
\<close>

theorem summary_failure_leaves_state_witness:
  "fetch_failed (Rejected :: (nat, int) summary_point list fetch_outcome) \<and>
   fetch_failed (Response False (Some [sample_point 0])) \<and>
   fetch_failed (Response True (None :: (nat, int) summary_point list option)) \<and>
   totalDatasets (updateTemporalPlot_resume Rejected
     (blank_page\<lparr>currentDatasetIndex := 1, totalDatasets := 3\<rparr>)) = 3 \<and>
   currentDatasetIndex (updateTemporalPlot_resume (Response False (Some [sample_point 0]))
     (blank_page\<lparr>currentDatasetIndex := 1, totalDatasets := 3\<rparr>)) = 1 \<and>
   totalDatasets (updateTemporalPlot_resume (Response True None)
     (blank_page\<lparr>currentDatasetIndex := 1, totalDatasets := 3\<rparr>)) = 3"
proof -
  let ?p = "blank_page\<lparr>currentDatasetIndex := 1, totalDatasets := 3\<rparr>"
  have f1: "fetch_failed (Rejected :: (nat, int) summary_point list fetch_outcome)"
    and f2: "fetch_failed (Response False (Some [sample_point 0]))"
    and f3: "fetch_failed (Response True (None :: (nat, int) summary_point list option))"
    by simp_all
  have p: "currentDatasetIndex ?p = 1" "totalDatasets ?p = 3"
    by (simp_all add: blank_page_def)
  from summary_failure_leaves_state [OF f1, of ?p 0 toFixed_int] p
  have "totalDatasets (updateTemporalPlot_resume Rejected ?p) = 3" by auto
  moreover from summary_failure_leaves_state [OF f2, of ?p 0 toFixed_int] p
  have "currentDatasetIndex
          (updateTemporalPlot_resume (Response False (Some [sample_point 0])) ?p) = 1"
    by auto
  moreover from summary_failure_leaves_state [OF f3, of ?p 0 toFixed_int] p
  have "totalDatasets (updateTemporalPlot_resume (Response True None) ?p) = 3" by auto
  ultimately show ?thesis
    using f1 f2 f3 by simp
qed

text \<open>
  C8. When the detail fetch for any index fails (the fetch rejects, the status is not a
  success, as for an index out of range, or the body does not parse), the filename
  label, the three stat labels and all charts are unchanged and the only effect is one
  entry appended to the console. The error does not leave updateDetailPlots: the event
  completes normally, with the settled request removed.
\<close>

theorem detail_failure_leaves_view:
  fixes p :: "('t, 'v) page"
  assumes "fetch_failed r"
  shows "\<exists>error.
           updateDetailPlots_try toFixed index r p = Inl (error, p) \<and>
           updateDetailPlots_resume toFixed index r p =
             p\<lparr>console := console p @ [(''Error en updateDetailPlots:'', error)]\<rparr> \<and>
           filenameEl (updateDetailPlots_resume toFixed index r p) = filenameEl p \<and>
           stats_min (updateDetailPlots_resume toFixed index r p) = stats_min p \<and>
           stats_max (updateDetailPlots_resume toFixed index r p) = stats_max p \<and>
           stats_avg (updateDetailPlots_resume toFixed index r p) = stats_avg p \<and>
           plots (updateDetailPlots_resume toFixed index r p) = plots p \<and>
           (k < length (inflight p) \<and> inflight p ! k = DetailFetch index \<longrightarrow>
              step toFixed (DetailArrives k r) p =
                Some (p\<lparr>inflight := remove_nth k (inflight p),
                        console := console p @ [(''Error en updateDetailPlots:'', error)]\<rparr>))"
proof -
  define error where
    "error = (case r of Rejected \<Rightarrow> FetchRejected
              | Response ok body \<Rightarrow>
                  if ok then JsonRejected
                  else JsError (''Dataset '' @ num_to_string index @ '' no encontrado''))"
  have thrown: "updateDetailPlots_try toFixed index r p = Inl (error, p)"
    for p :: "('t, 'v) page"
    using assms
    by (cases r) (auto simp: updateDetailPlots_try_def error_def split: option.splits)
  have caught: "updateDetailPlots_resume toFixed index r p =
      p\<lparr>console := console p @ [(''Error en updateDetailPlots:'', error)]\<rparr>"
    for p :: "('t, 'v) page"
    by (simp add: updateDetailPlots_resume_def thrown console_error_def)
  show ?thesis
    by (rule exI [of _ error]) (simp add: thrown caught)
qed

text \<open>
  A not-found response for index 7 over a view that shows another file.
\<close>

theorem detail_failure_leaves_view_witness:
  "fetch_failed (Response False (None :: int detail_record option)) \<and>
   filenameEl (updateDetailPlots_resume toFixed_int 7 (Response False None)
     (blank_page\<lparr>filenameEl := ''f1'', stats_min := ''1.00''\<rparr>)) = ''f1'' \<and>
   stats_min (updateDetailPlots_resume toFixed_int 7 (Response False None)
     (blank_page\<lparr>filenameEl := ''f1'', stats_min := ''1.00''\<rparr>)) = ''1.00'' \<and>
   console (updateDetailPlots_resume toFixed_int 7 (Response False None)
     (blank_page\<lparr>filenameEl := ''f1'', stats_min := ''1.00''\<rparr>)) =
     [(''Error en updateDetailPlots:'', JsError ''Dataset 7 no encontrado'')]"
proof -
  let ?p = "blank_page\<lparr>filenameEl := ''f1'', stats_min := ''1.00''\<rparr> :: (nat, int) page"
  have f: "fetch_failed (Response False (None :: int detail_record option))"
    by simp
  have seven: "num_to_string 7 = ''7''"
    by code_simp
  have thrown: "updateDetailPlots_try toFixed_int 7 (Response False None) ?p =
      Inl (JsError ''Dataset 7 no encontrado'', ?p)"
    by (simp add: updateDetailPlots_try_def seven)
  from detail_failure_leaves_view [OF f, of toFixed_int 7 ?p 0] thrown
  have "updateDetailPlots_resume toFixed_int 7 (Response False None) ?p =
      ?p\<lparr>console := console ?p @
        [(''Error en updateDetailPlots:'', JsError ''Dataset 7 no encontrado'')]\<rparr>"
    by auto
  then show ?thesis
    using f by (simp add: blank_page_def)
qed

subsection \<open>Successful summary responses\<close>

lemma updateTemporalPlot_resume_success:
  "updateTemporalPlot_resume (Response True (Some summaryData)) p =
     (if summaryData = [] then p\<lparr>totalDatasets := 0\<rparr>
      else updateControls
             (Plotly_draw ''temporal-plot''
                [Scatter (map timestamp summaryData) (map max_temp summaryData),
                 Scatter (map timestamp summaryData) (map min_temp summaryData)]
                (p\<lparr>totalDatasets := int (length summaryData)\<rparr>)))"
  by (simp add: updateTemporalPlot_resume_def updateTemporalPlot_try_def Let_def)

lemma startup_refresh_empty:
  "k < length (inflight p) \<Longrightarrow> inflight p ! k = SummaryFetch FromInitialize \<Longrightarrow>
     step toFixed (SummaryArrives k (Response True (Some []))) p =
       Some (p\<lparr>totalDatasets := 0, inflight := remove_nth k (inflight p),
               counterEl := ''0 / 0'',
               btnPrev_disabled := (currentDatasetIndex p \<le> 0),
               btnNext_disabled := (currentDatasetIndex p \<ge> - 1)\<rparr>)"
  by (simp add: updateTemporalPlot_resume_success initialize_resume_def updateControls_def
      Let_def)

text \<open>
  C9 (as amended). For every successful summary response with a list of length n the
  refresh sets the total to n. When n > 0 it draws the time-series chart from the list
  and recomputes the controls for the unchanged index and the new total. When n = 0 it
  returns before drawing, so the chart is left as it was. The request issued at start-up
  is followed by a recomputation of the controls whenever it is answered: when its
  answer is an empty list, in any state, the total is 0, the label is the one with two
  zeros, next is disabled for every index from -1 on and previous is disabled exactly
  when index <= 0. In a state reached from the page load the index is not negative, so
  next is disabled and previous is disabled exactly when the index is 0; when the
  answer is the first event after the page load, both buttons are disabled.
\<close>

theorem successful_refresh_effect:
  "totalDatasets (updateTemporalPlot_resume (Response True (Some summaryData)) p) =
     int (length summaryData) \<and>
   (summaryData \<noteq> [] \<longrightarrow>
      plots (updateTemporalPlot_resume (Response True (Some summaryData)) p) =
        (plots p)(''temporal-plot'' \<mapsto>
          [Scatter (map timestamp summaryData) (map max_temp summaryData),
           Scatter (map timestamp summaryData) (map min_temp summaryData)]) \<and>
      counterEl (updateTemporalPlot_resume (Response True (Some summaryData)) p) =
        num_to_string (currentDatasetIndex p + 1) @ '' / '' @
        num_to_string (int (length summaryData)) \<and>
      btnPrev_disabled (updateTemporalPlot_resume (Response True (Some summaryData)) p) =
        (currentDatasetIndex p \<le> 0) \<and>
      btnNext_disabled (updateTemporalPlot_resume (Response True (Some summaryData)) p) =
        (currentDatasetIndex p \<ge> int (length summaryData) - 1)) \<and>
   (summaryData = [] \<longrightarrow>
      plots (updateTemporalPlot_resume (Response True (Some summaryData)) p) = plots p) \<and>
   (k < length (inflight p) \<and> inflight p ! k = SummaryFetch FromInitialize \<longrightarrow>
      step toFixed (SummaryArrives k (Response True (Some []))) p =
        Some (p\<lparr>totalDatasets := 0, inflight := remove_nth k (inflight p),
                counterEl := ''0 / 0'',
                btnPrev_disabled := (currentDatasetIndex p \<le> 0),
                btnNext_disabled := (currentDatasetIndex p \<ge> - 1)\<rparr>)) \<and>
   (run toFixed es (page_load html) = Some s \<and>
    k < length (inflight s) \<and> inflight s ! k = SummaryFetch FromInitialize \<longrightarrow>
      step toFixed (SummaryArrives k (Response True (Some []))) s =
        Some (s\<lparr>totalDatasets := 0, inflight := remove_nth k (inflight s),
                counterEl := ''0 / 0'',
                btnPrev_disabled := (currentDatasetIndex s = 0),
                btnNext_disabled := True\<rparr>)) \<and>
   step toFixed (SummaryArrives 0 (Response True (Some []))) (page_load html) =
     Some (html\<lparr>currentDatasetIndex := 0, totalDatasets := 0, inflight := [],
                counterEl := ''0 / 0'', btnPrev_disabled := True,
                btnNext_disabled := True\<rparr>)"
proof -
  have reached: "step toFixed (SummaryArrives k (Response True (Some []))) s =
        Some (s\<lparr>totalDatasets := 0, inflight := remove_nth k (inflight s),
                counterEl := ''0 / 0'',
                btnPrev_disabled := (currentDatasetIndex s = 0),
                btnNext_disabled := True\<rparr>)"
    if r: "run toFixed es (page_load html) = Some s"
      and k: "k < length (inflight s)" "inflight s ! k = SummaryFetch FromInitialize"
  proof -
    have nonneg: "0 \<le> currentDatasetIndex s"
      using run_index_nonneg [OF r] by simp
    then have "(currentDatasetIndex s \<le> 0) = (currentDatasetIndex s = 0)"
      and "(currentDatasetIndex s \<ge> - 1) = True"
      by auto
    then show ?thesis
      using startup_refresh_empty [OF k, of toFixed] by simp
  qed
  have first: "step toFixed (SummaryArrives 0 (Response True (Some []))) (page_load html) =
     Some (html\<lparr>currentDatasetIndex := 0, totalDatasets := 0, inflight := [],
                counterEl := ''0 / 0'', btnPrev_disabled := True,
                btnNext_disabled := True\<rparr>)"
    by (simp add: updateTemporalPlot_resume_success updateControls_def
        page_load_def initialize_start_def updateTemporalPlot_start_def remove_nth_def
        initialize_resume_def Let_def)
  have resumed: "totalDatasets (updateTemporalPlot_resume (Response True (Some summaryData)) p) =
     int (length summaryData) \<and>
   (summaryData \<noteq> [] \<longrightarrow>
      plots (updateTemporalPlot_resume (Response True (Some summaryData)) p) =
        (plots p)(''temporal-plot'' \<mapsto>
          [Scatter (map timestamp summaryData) (map max_temp summaryData),
           Scatter (map timestamp summaryData) (map min_temp summaryData)]) \<and>
      counterEl (updateTemporalPlot_resume (Response True (Some summaryData)) p) =
        num_to_string (currentDatasetIndex p + 1) @ '' / '' @
        num_to_string (int (length summaryData)) \<and>
      btnPrev_disabled (updateTemporalPlot_resume (Response True (Some summaryData)) p) =
        (currentDatasetIndex p \<le> 0) \<and>
      btnNext_disabled (updateTemporalPlot_resume (Response True (Some summaryData)) p) =
        (currentDatasetIndex p \<ge> int (length summaryData) - 1)) \<and>
   (summaryData = [] \<longrightarrow>
      plots (updateTemporalPlot_resume (Response True (Some summaryData)) p) = plots p)"
    by (simp add: updateTemporalPlot_resume_success updateControls_def Plotly_draw_def)
  show ?thesis
    using resumed first reached startup_refresh_empty [of k p toFixed] by blast
qed

text \<open>
  Three datasets and no dataset over a blank page, and the overtaken start-up response:
  the page ends at index 1 of 0 with previous enabled and next disabled.
\<close>

theorem successful_refresh_effect_witness:
  "totalDatasets (updateTemporalPlot_resume (summary_of [0, 1, 2]) blank_page) = 3 \<and>
   counterEl (updateTemporalPlot_resume (summary_of [0, 1, 2]) blank_page) = ''1 / 3'' \<and>
   btnPrev_disabled (updateTemporalPlot_resume (summary_of [0, 1, 2]) blank_page) \<and>
   \<not> btnNext_disabled (updateTemporalPlot_resume (summary_of [0, 1, 2]) blank_page) \<and>
   plots (updateTemporalPlot_resume (summary_of [0, 1, 2]) blank_page) ''temporal-plot'' =
     Some [Scatter [0, 1, 2] [30, 31, 32], Scatter [0, 1, 2] [20, 21, 22]] \<and>
   totalDatasets (updateTemporalPlot_resume (Response True (Some [])) blank_page) = 0 \<and>
   plots (updateTemporalPlot_resume (Response True (Some [])) blank_page) = plots blank_page \<and>
   map_option currentDatasetIndex
     (run toFixed_int late_startup_trace (page_load blank_page)) = Some 1 \<and>
   map_option totalDatasets
     (run toFixed_int late_startup_trace (page_load blank_page)) = Some 0 \<and>
   map_option counterEl
     (run toFixed_int late_startup_trace (page_load blank_page)) = Some ''0 / 0'' \<and>
   map_option btnPrev_disabled
     (run toFixed_int late_startup_trace (page_load blank_page)) = Some False \<and>
   map_option btnNext_disabled
     (run toFixed_int late_startup_trace (page_load blank_page)) = Some True"
proof -
  have ds: "num_to_string 1 = ''1''" "num_to_string 3 = ''3''"
    by code_simp+
  have b: "currentDatasetIndex blank_page = 0"
    by (simp add: blank_page_def)
  have ne: "map sample_point [0, 1, 2] \<noteq> []"
    by simp
  note three = successful_refresh_effect
    [where summaryData = "map sample_point [0, 1, 2]" and p = blank_page and k = 0
       and toFixed = toFixed_int and es = "[]" and html = blank_page and s = blank_page]
  note drawn = three [THEN conjunct2, THEN conjunct1, THEN mp, OF ne]
  from three [THEN conjunct1] drawn b ds
  have shown: "totalDatasets (updateTemporalPlot_resume (summary_of [0, 1, 2]) blank_page) = 3"
    "counterEl (updateTemporalPlot_resume (summary_of [0, 1, 2]) blank_page) = ''1 / 3''"
    "btnPrev_disabled (updateTemporalPlot_resume (summary_of [0, 1, 2]) blank_page)"
    "\<not> btnNext_disabled (updateTemporalPlot_resume (summary_of [0, 1, 2]) blank_page)"
    "plots (updateTemporalPlot_resume (summary_of [0, 1, 2]) blank_page) ''temporal-plot'' =
       Some [Scatter [0, 1, 2] [30, 31, 32], Scatter [0, 1, 2] [20, 21, 22]]"
    by (simp_all add: summary_of_def sample_point_def)
  note zero = successful_refresh_effect
    [where summaryData = "[] :: (nat, int) summary_point list" and p = blank_page and k = 0
       and toFixed = toFixed_int and es = "[]" and html = blank_page and s = blank_page]
  from zero [THEN conjunct1] zero [THEN conjunct2, THEN conjunct2, THEN conjunct1]
  have none: "totalDatasets (updateTemporalPlot_resume (Response True (Some [])) blank_page) = 0"
    "plots (updateTemporalPlot_resume (Response True (Some [])) blank_page) =
       plots blank_page"
    by simp_all
  have i: "map_option currentDatasetIndex
             (run toFixed_int late_startup_prefix (page_load blank_page)) = Some 1"
    by code_simp
  have f: "map_option inflight
             (run toFixed_int late_startup_prefix (page_load blank_page)) =
           Some [SummaryFetch FromInitialize, DetailFetch 1]"
    by code_simp
  from i f obtain s where
    s: "run toFixed_int late_startup_prefix (page_load blank_page) = Some s"
    and si: "currentDatasetIndex s = 1"
    and sf: "inflight s = [SummaryFetch FromInitialize, DetailFetch 1]"
    by auto
  have k: "0 < length (inflight s)" "inflight s ! 0 = SummaryFetch FromInitialize"
    using sf by simp_all
  note late_inst = successful_refresh_effect
    [where toFixed = toFixed_int and es = late_startup_prefix and html = blank_page
       and s = s and k = 0 and p = blank_page
       and summaryData = "[] :: (nat, int) summary_point list"]
  from late_inst [THEN conjunct2, THEN conjunct2, THEN conjunct2, THEN conjunct2,
      THEN conjunct1, THEN mp] s k si
  have "step toFixed_int (SummaryArrives 0 (Response True (Some []))) s =
      Some (s\<lparr>totalDatasets := 0, inflight := remove_nth 0 (inflight s),
              counterEl := ''0 / 0'', btnPrev_disabled := False,
              btnNext_disabled := True\<rparr>)"
    by simp
  with s si have late:
    "map_option currentDatasetIndex
       (run toFixed_int late_startup_trace (page_load blank_page)) = Some 1"
    "map_option totalDatasets
       (run toFixed_int late_startup_trace (page_load blank_page)) = Some 0"
    "map_option counterEl
       (run toFixed_int late_startup_trace (page_load blank_page)) = Some ''0 / 0''"
    "map_option btnPrev_disabled
       (run toFixed_int late_startup_trace (page_load blank_page)) = Some False"
    "map_option btnNext_disabled
       (run toFixed_int late_startup_trace (page_load blank_page)) = Some True"
    by (simp_all add: late_startup_trace_def run_append)
  from shown none late show ?thesis by simp
qed

text \<open>
  C9 as stated fails for n = 0 after start-up: with three datasets shown at index 0, a
  timer refresh that finds none sets the total to 0 and leaves the label at 1 of 3 and
  the next button enabled.
\<close>

theorem empty_refresh_leaves_controls:
  "map_option totalDatasets (run toFixed_int empty_refresh_trace (page_load blank_page)) =
     Some 0 \<and>
   map_option counterEl (run toFixed_int empty_refresh_trace (page_load blank_page)) =
     Some ''1 / 3'' \<and>
   map_option btnNext_disabled (run toFixed_int empty_refresh_trace (page_load blank_page)) =
     Some False"
  by code_simp

end
